theory Spec2Isabelle
  imports Complex_Main
begin

section \<open>i.wv2.toar: WorldView-2 counts to top-of-atmosphere radiance and reflectance\<close>

text \<open>
  The script is embedded function by function. Python floats are idealised as
  \<^typ>\<open>real\<close> (no rounding, no infinities, no NaN), Python integers are
  \<^typ>\<open>int\<close>, a raised exception is the \<open>Inl\<close> branch of a sum, and the
  calls made to the GIS (messages, region setting, the map-algebra request) are the
  events of a trace returned next to the result.
\<close>

subsection \<open>Exceptions\<close>

datatype pyexn =
    ValueError
  | TypeError
  | AttributeError
  | IndexError
  | KeyError string
  | NameError string
  | IOError
  | ParseError
  | SystemExit int

subsection \<open>The acquisition time: \<open>datetime.strptime(date, "%Y-%m-%dT%H:%M:%S.%fZ")\<close>\<close>

text \<open>
  \<open>acqTime\<close> is a \<open>datetime\<close> object; the script reads its seven fields.
\<close>

record datetime =
  dt_year :: int
  dt_month :: int
  dt_day :: int
  dt_hour :: int
  dt_minute :: int
  dt_second :: int
  dt_microsecond :: int

definition digit :: "char \<Rightarrow> bool" where
  "digit c = (c \<in> set ''0123456789'')"

definition digit19 :: "char \<Rightarrow> bool" where
  "digit19 c = (c \<in> set ''123456789'')"

text \<open>
  \<open>int(s)\<close> on a field the regular expression has matched: decimal digits, with
  the blank that the day field may start with skipped, as \<open>int\<close> strips blanks.
\<close>

definition int_of_field :: "string \<Rightarrow> int" where
  "int_of_field s =
     foldl (\<lambda>n c. 10 * n + (int (of_char c) - 48)) 0 (filter (\<lambda>c. c \<noteq> CHR '' '') s)"

text \<open>
  The library turns each directive of the format into a group of a regular expression;
  the functions below are those groups, alternative by alternative:
  \<open>%Y\<close> is \<open>\d\d\d\d\<close>, \<open>%m\<close> is \<open>1[0-2]|0[1-9]|[1-9]\<close>,
  \<open>%d\<close> is \<open>3[0-1]|[1-2]\d|0[1-9]|[1-9]| [1-9]\<close>,
  \<open>%H\<close> is \<open>2[0-3]|[0-1]\d|\d\<close>, \<open>%M\<close> is \<open>[0-5]\d|\d\<close>,
  \<open>%S\<close> is \<open>6[0-1]|[0-5]\d|\d\<close> and \<open>%f\<close> is \<open>[0-9]{1,6}\<close>.
\<close>

fun re_Y :: "string \<Rightarrow> bool" where
  "re_Y [a, b, c, d] = (digit a \<and> digit b \<and> digit c \<and> digit d)"
| "re_Y _ = False"

fun re_m :: "string \<Rightarrow> bool" where
  "re_m [a, b] = ((a = CHR ''1'' \<and> b \<in> set ''012'') \<or> (a = CHR ''0'' \<and> digit19 b))"
| "re_m [a] = digit19 a"
| "re_m _ = False"

fun re_d :: "string \<Rightarrow> bool" where
  "re_d [a, b] = ((a = CHR ''3'' \<and> b \<in> set ''01'') \<or> (a \<in> set ''12'' \<and> digit b)
                   \<or> (a = CHR ''0'' \<and> digit19 b) \<or> (a = CHR '' '' \<and> digit19 b))"
| "re_d [a] = digit19 a"
| "re_d _ = False"

fun re_H :: "string \<Rightarrow> bool" where
  "re_H [a, b] = ((a = CHR ''2'' \<and> b \<in> set ''0123'') \<or> (a \<in> set ''01'' \<and> digit b))"
| "re_H [a] = digit a"
| "re_H _ = False"

fun re_M :: "string \<Rightarrow> bool" where
  "re_M [a, b] = (a \<in> set ''012345'' \<and> digit b)"
| "re_M [a] = digit a"
| "re_M _ = False"

fun re_S :: "string \<Rightarrow> bool" where
  "re_S [a, b] = ((a = CHR ''6'' \<and> b \<in> set ''01'') \<or> (a \<in> set ''012345'' \<and> digit b))"
| "re_S [a] = digit a"
| "re_S _ = False"

definition re_f :: "string \<Rightarrow> bool" where
  "re_f s = (1 \<le> length s \<and> length s \<le> 6 \<and> (\<forall>c \<in> set s. digit c))"

text \<open>
  Every group is followed in the format by a literal character that the group cannot
  contain, so the text a group matches is the text up to the first such character.
  The expression is compiled with \<open>IGNORECASE\<close>: \<open>T\<close> and \<open>Z\<close> match in
  either case.
\<close>

definition upto :: "char list \<Rightarrow> string \<Rightarrow> (string \<times> string) option" where
  "upto seps s =
     (case dropWhile (\<lambda>c. c \<notin> set seps) s of
        [] \<Rightarrow> None
      | _ # rest \<Rightarrow> Some (takeWhile (\<lambda>c. c \<notin> set seps) s, rest))"

definition is_leap :: "int \<Rightarrow> bool" where
  "is_leap y = (y mod 4 = 0 \<and> (y mod 100 \<noteq> 0 \<or> y mod 400 = 0))"

definition days_in_month :: "int \<Rightarrow> int \<Rightarrow> int" where
  "days_in_month y m =
     (if m = 2 then (if is_leap y then 29 else 28)
      else if m \<in> {4, 6, 9, 11} then 30 else 31)"

text \<open>
  The checks of the \<open>datetime\<close> constructor: a year from 1 to 9999, a day that the
  month has, and no leap second (the expression lets 60 and 61 through).
\<close>

definition valid_datetime :: "datetime \<Rightarrow> bool" where
  "valid_datetime t =
     (1 \<le> dt_year t \<and> dt_year t \<le> 9999 \<and> 1 \<le> dt_month t \<and> dt_month t \<le> 12
      \<and> 1 \<le> dt_day t \<and> dt_day t \<le> days_in_month (dt_year t) (dt_month t)
      \<and> 0 \<le> dt_hour t \<and> dt_hour t \<le> 23 \<and> 0 \<le> dt_minute t \<and> dt_minute t \<le> 59
      \<and> 0 \<le> dt_second t \<and> dt_second t \<le> 59
      \<and> 0 \<le> dt_microsecond t \<and> dt_microsecond t \<le> 999999)"

definition strptime :: "string \<Rightarrow> pyexn + datetime" where
  "strptime date =
     (case upto ''-'' date of None \<Rightarrow> Inl ValueError | Some (Y, s1) \<Rightarrow>
     (case upto ''-'' s1 of None \<Rightarrow> Inl ValueError | Some (m, s2) \<Rightarrow>
     (case upto ''Tt'' s2 of None \<Rightarrow> Inl ValueError | Some (d, s3) \<Rightarrow>
     (case upto '':'' s3 of None \<Rightarrow> Inl ValueError | Some (H, s4) \<Rightarrow>
     (case upto '':'' s4 of None \<Rightarrow> Inl ValueError | Some (M, s5) \<Rightarrow>
     (case upto ''.'' s5 of None \<Rightarrow> Inl ValueError | Some (S, s6) \<Rightarrow>
     (case upto ''Zz'' s6 of None \<Rightarrow> Inl ValueError | Some (f, s7) \<Rightarrow>
        if re_Y Y \<and> re_m m \<and> re_d d \<and> re_H H \<and> re_M M \<and> re_S S \<and> re_f f \<and> s7 = []
        then
          (let t = \<lparr>dt_year = int_of_field Y, dt_month = int_of_field m,
                    dt_day = int_of_field d, dt_hour = int_of_field H,
                    dt_minute = int_of_field M, dt_second = int_of_field S,
                    dt_microsecond = int_of_field (f @ replicate (6 - length f) CHR ''0'')\<rparr>
           in if valid_datetime t then Inr t else Inl ValueError)
        else Inl ValueError)))))))"

subsection \<open>\<open>EarthSunDistance\<close>\<close>

text \<open>
  \<open>int(x)\<close> on a float truncates towards zero. On integers, \<open>year / 100\<close> and
  \<open>A / 4\<close> are Python 2's floor division, and \<open>int\<close> of an integer is that integer.
  \<open>math.radians\<close> multiplies by \<open>pi / 180\<close>.
\<close>

definition py_int :: "real \<Rightarrow> int" where
  "py_int x = (if 0 \<le> x then \<lfloor>x\<rfloor> else \<lceil>x\<rceil>)"

definition radians :: "real \<Rightarrow> real" where
  "radians x = x * pi / 180"

definition distance_of :: "datetime \<Rightarrow> real" where
  "distance_of acqTime =
     (let (month, year) =
            (if dt_month acqTime = 1 \<or> dt_month acqTime = 2
             then (dt_month acqTime + 12, dt_year acqTime - 1)
             else (dt_month acqTime, dt_year acqTime));
          secondsMicro = of_int (dt_second acqTime) + of_int (dt_microsecond acqTime) / 1000000;
          UT = of_int (dt_hour acqTime) + of_int (dt_minute acqTime) / 60 + secondsMicro / 3600;
          A = year div 100;
          B = 2 - A + A div 4;
          JD = of_int (py_int (365.25 * of_int (year + 4716)))
               + of_int (py_int (30.6001 * of_int (month + 1)))
               + of_int (dt_day acqTime) + UT / 24 + of_int B - 1524.5;
          D = JD - 2451545;
          g = radians (357.529 + 0.98560028 * D)
      in 1.00014 - 0.01671 * cos g - 0.00014 * cos (2 * g))"

definition EarthSunDistance :: "string \<Rightarrow> pyexn + real" where
  "EarthSunDistance date =
     (case strptime date of Inl e \<Rightarrow> Inl e | Inr acqTime \<Rightarrow> Inr (distance_of acqTime))"

subsection \<open>The metadata document\<close>

text \<open>
  An element of the tree that \<open>etree.parse\<close> builds: its tag, its text (\<open>None\<close> when
  the element has none) and its children in document order.
\<close>

datatype element = Element (el_tag: string) (el_text: "string option") (el_children: "element list")

text \<open>
  \<open>root.find("a/b/c")\<close>: each step of the path keeps, in order, the children with
  that tag of the elements kept so far; \<open>find\<close> gives the first element left, or
  \<open>None\<close>. The paths of the script are three plain tags.
\<close>

fun findall :: "string list \<Rightarrow> element \<Rightarrow> element list" where
  "findall [] e = [e]"
| "findall (t # path) e =
     concat (map (findall path) (filter (\<lambda>c. el_tag c = t) (el_children e)))"

definition find_el :: "element \<Rightarrow> string list \<Rightarrow> element option" where
  "find_el rootel path = (case findall path rootel of [] \<Rightarrow> None | e # _ \<Rightarrow> Some e)"

text \<open>\<open>root.find(path).text\<close>: reading \<open>.text\<close> of \<open>None\<close> raises.\<close>

definition text_at :: "element \<Rightarrow> string list \<Rightarrow> pyexn + string option" where
  "text_at rootel path =
     (case find_el rootel path of None \<Rightarrow> Inl AttributeError | Some e \<Rightarrow> Inr (el_text e))"

text \<open>
  What \<open>open\<close> and \<open>etree.parse\<close> make of a path: no entry when the file cannot be
  opened, \<open>Malformed\<close> when its content is not well-formed markup.
\<close>

datatype xml_file = Malformed | Document element

type_synonym filesystem = "string \<Rightarrow> xml_file option"

subsection \<open>The calls made to the GIS\<close>

text \<open>
  The expression handed to \<open>grass.mapcalc\<close>, after the template's parameters are
  substituted: a number, a raster map, product, quotient, power and cosine.
\<close>

datatype mexpr =
    Num real
  | Rast string
  | Mul mexpr mexpr
  | Div mexpr mexpr
  | Pow mexpr nat
  | Cos mexpr

datatype event =
    Message string
  | UseTempRegion
  | GRegion string
  | Mapcalc string mexpr

text \<open>
  The value of an expression at one cell, as the map calculator computes it: a null
  cell of the input gives a null cell, a division by zero gives a null cell, and the
  trigonometric functions take degrees.
\<close>

definition null_div :: "real \<Rightarrow> real \<Rightarrow> real option" where
  "null_div x y = (if y = 0 then None else Some (x / y))"

fun cell_value :: "(string \<Rightarrow> real option) \<Rightarrow> mexpr \<Rightarrow> real option" where
  "cell_value env (Num x) = Some x"
| "cell_value env (Rast r) = env r"
| "cell_value env (Mul a b) =
     (case cell_value env a of None \<Rightarrow> None
      | Some x \<Rightarrow> (case cell_value env b of None \<Rightarrow> None | Some y \<Rightarrow> Some (x * y)))"
| "cell_value env (Div a b) =
     (case cell_value env a of None \<Rightarrow> None
      | Some x \<Rightarrow> (case cell_value env b of None \<Rightarrow> None | Some y \<Rightarrow> null_div x y))"
| "cell_value env (Pow a n) =
     (case cell_value env a of None \<Rightarrow> None | Some x \<Rightarrow> Some (x ^ n))"
| "cell_value env (Cos a) =
     (case cell_value env a of None \<Rightarrow> None | Some x \<Rightarrow> Some (cos (x * pi / 180)))"

subsection \<open>\<open>ExtractVariablesFromMetadata\<close>\<close>

definition bind_exn :: "pyexn + 'a \<Rightarrow> ('a \<Rightarrow> pyexn + 'b) \<Rightarrow> pyexn + 'b" where
  "bind_exn m f = (case m of Inl e \<Rightarrow> Inl e | Inr x \<Rightarrow> f x)"

text \<open>
  \<open>float(v)\<close> on the text of a node. The conversion of a string is a parameter
  \<open>pyfloat\<close> of the model (\<open>None\<close> where \<open>float\<close> raises \<open>ValueError\<close>);
  \<open>float(None)\<close> raises \<open>TypeError\<close>.
\<close>

definition to_float :: "(string \<Rightarrow> real option) \<Rightarrow> string option \<Rightarrow> pyexn + real" where
  "to_float pyfloat v =
     (case v of None \<Rightarrow> Inl TypeError
      | Some s \<Rightarrow> (case pyfloat s of None \<Rightarrow> Inl ValueError | Some x \<Rightarrow> Inr x))"

text \<open>The WV-2 band-averaged solar spectral irradiance table.\<close>

definition SSI :: "(string \<times> real) list" where
  "SSI = [(''BAND_P'', 1580.8140),
          (''BAND_C'', 1758.2229),
          (''BAND_B'', 1974.2416),
          (''BAND_G'', 1856.4104),
          (''BAND_Y'', 1738.4791),
          (''BAND_R'', 1559.4555),
          (''BAND_RE'', 1342.0695),
          (''BAND_N'', 1069.7302),
          (''BAND_N2'', 861.2866)]"

text \<open>
  The body of the \<open>try\<close> block, statement by statement. \<open>EarthSunDistance\<close> is
  called on the text of the node, which may be \<open>None\<close>: \<open>strptime\<close> then raises
  \<open>TypeError\<close>. The elements of the returned list are evaluated from left to right.
\<close>

definition try_body :: "(string \<Rightarrow> real option) \<Rightarrow> element \<Rightarrow> string \<Rightarrow> pyexn + real list" where
  "try_body pyfloat rootel band =
     bind_exn (text_at rootel [''IMD'', band, ''ABSCALFACTOR'']) (\<lambda>absCalFactor.
     bind_exn (text_at rootel [''IMD'', band, ''EFFECTIVEBANDWIDTH'']) (\<lambda>effectiveBandWidth.
     bind_exn (text_at rootel [''IMD'', ''IMAGE'', ''MEANSUNEL'']) (\<lambda>sunElevation.
     bind_exn (text_at rootel [''IMD'', ''MAP_PROJECTED_PRODUCT'', ''EARLIESTACQTIME'']) (\<lambda>acqTime.
     bind_exn (case acqTime of None \<Rightarrow> Inl TypeError | Some date \<Rightarrow> EarthSunDistance date)
       (\<lambda>earthSunDist.
     bind_exn (to_float pyfloat absCalFactor) (\<lambda>a.
     bind_exn (to_float pyfloat sunElevation) (\<lambda>el.
     bind_exn (case map_of SSI band of None \<Rightarrow> Inl (KeyError band) | Some v \<Rightarrow> Inr v) (\<lambda>eSun.
     bind_exn (to_float pyfloat effectiveBandWidth) (\<lambda>efb.
       Inr [a, 90 - el, earthSunDist, eSun, efb])))))))))"

definition extract_error :: string where
  "extract_error = ''Error: Could not find required variables in the ''
                   @ replicate 26 CHR '' '' @ ''metadata file.''"

text \<open>
  Opening and parsing the file stand before the \<open>try\<close>: what they raise leaves the
  function as it is. Whatever the \<open>try\<close> block raises is caught by the bare
  \<open>except\<close>, which writes the message and calls \<open>sys.exit(1)\<close>.
\<close>

definition ExtractVariablesFromMetadata ::
  "(string \<Rightarrow> real option) \<Rightarrow> filesystem \<Rightarrow> string \<Rightarrow> string \<Rightarrow> event list \<times> (pyexn + real list)" where
  "ExtractVariablesFromMetadata pyfloat fs metadataFilePath band =
     (case fs metadataFilePath of
        None \<Rightarrow> ([], Inl IOError)
      | Some Malformed \<Rightarrow> ([], Inl ParseError)
      | Some (Document rootel) \<Rightarrow>
          (case try_body pyfloat rootel band of
             Inr vars \<Rightarrow> ([], Inr vars)
           | Inl e \<Rightarrow> ([Message extract_error], Inl (SystemExit 1))))"

subsection \<open>\<open>CalculateTOAR\<close>\<close>

text \<open>
  \<open>rastItems\<close> is the list \<open>[input_map] + variables\<close>: a raster name followed by
  floats. The model keeps the name and the floats apart, so \<open>rastItems[i + 1]\<close> is
  \<open>items ! i\<close>; an index past the end raises \<open>IndexError\<close>.
\<close>

definition item :: "real list \<Rightarrow> nat \<Rightarrow> pyexn + real" where
  "item xs i = (if i < length xs then Inr (xs ! i) else Inl IndexError)"

text \<open>
  The two templates with their parameters substituted:
  \<open>($absCal * $input_rast) / $efb\<close> and
  \<open>((($absCal * $input_rast) / $efb) * $esd^2 * $pi) / ($eSun * cos($theta))\<close>.
  In the map calculator \<open>^\<close> binds tighter than \<open>*\<close>, and \<open>*\<close> associates to the left.
  The script prints each number into the template; the model keeps its value.
\<close>

definition calc :: "string \<Rightarrow> real list \<Rightarrow> bool \<Rightarrow> pyexn + mexpr" where
  "calc raster items radiance =
     bind_exn (item items 0) (\<lambda>absCalFactor.
     bind_exn (item items 1) (\<lambda>theta.
     bind_exn (item items 2) (\<lambda>earthSunDist.
     bind_exn (item items 3) (\<lambda>eSun.
     bind_exn (item items 4) (\<lambda>effectiveBandwidth.
       if radiance
       then Inr (Div (Mul (Num absCalFactor) (Rast raster)) (Num effectiveBandwidth))
       else Inr (Div (Mul (Mul (Div (Mul (Num absCalFactor) (Rast raster)) (Num effectiveBandwidth))
                               (Pow (Num earthSunDist) 2))
                          (Num pi))
                     (Mul (Num eSun) (Cos (Num theta)))))))))"

definition CalculateTOAR :: "string \<Rightarrow> real list \<Rightarrow> string \<Rightarrow> bool \<Rightarrow> event list \<times> (pyexn + unit)" where
  "CalculateTOAR raster items output radiance =
     (case calc raster items radiance of
        Inl e \<Rightarrow> ([], Inl e)
      | Inr expr \<Rightarrow>
          ([UseTempRegion, GRegion raster,
            Message ((if radiance then ''Calculating Top of Atmosphere Radiance for ''
                      else ''Calculating Top of Atmosphere Reflectance for '') @ raster),
            Mapcalc output expr], Inr ()))"

subsection \<open>\<open>main\<close>\<close>

record invocation =
  opt_map :: string
  opt_output_prefix :: string
  opt_metadata_xml :: string
  opt_band :: string
  flag_n :: bool
  flag_r :: bool

definition band_lookup :: "(string \<times> string) list" where
  "band_lookup = [(''Pan'', ''BAND_P''),
                  (''Coastal'', ''BAND_C''),
                  (''Blue'', ''BAND_B''),
                  (''Green'', ''BAND_G''),
                  (''Yellow'', ''BAND_Y''),
                  (''Red'', ''BAND_R''),
                  (''Red Edge'', ''BAND_RE''),
                  (''NIR1'', ''BAND_N''),
                  (''NIR2'', ''BAND_N2'')]"

definition band_num :: "(string \<times> string) list" where
  "band_num = [(''Pan'', ''P''),
               (''Coastal'', ''1''),
               (''Blue'', ''2''),
               (''Green'', ''3''),
               (''Yellow'', ''4''),
               (''Red'', ''5''),
               (''Red Edge'', ''6''),
               (''NIR1'', ''7''),
               (''NIR2'', ''8'')]"

definition getitem :: "(string \<times> string) list \<Rightarrow> string \<Rightarrow> pyexn + string" where
  "getitem d k = (case map_of d k of None \<Rightarrow> Inl (KeyError k) | Some v \<Rightarrow> Inr v)"

text \<open>Lines 196 to 199: \<open>use_band_names\<close> is the flag \<open>n\<close>.\<close>

definition output_name :: "string \<Rightarrow> string \<Rightarrow> bool \<Rightarrow> pyexn + string" where
  "output_name output_prefix band use_band_names =
     (if use_band_names
      then bind_exn (getitem band_lookup band) (\<lambda>code. Inr (output_prefix @ ''.'' @ code))
      else bind_exn (getitem band_num band) (\<lambda>code. Inr (output_prefix @ ''.'' @ code)))"

text \<open>
  A name that \<open>main\<close> does not assign is looked up among the names of the module.
  These are the objects the script binds there: the imported modules, the class
  \<open>datetime\<close>, its four functions, and the two dictionaries that \<open>grass.parser()\<close>
  returns (no built-in is called \<open>bandLookup\<close>). Subscripting by a string gives
  the entry of a dictionary (a flag, read as a band code, is used through its text
  only), and raises \<open>TypeError\<close> on every other object.
\<close>

datatype pyobj = Opaque | StrDict "(string \<times> string) list" | FlagDict "(string \<times> bool) list"

definition script_globals :: "invocation \<Rightarrow> (string \<times> pyobj) list" where
  "script_globals args =
     [(''sys'', Opaque), (''os'', Opaque), (''datetime'', Opaque), (''math'', Opaque),
      (''grass'', Opaque), (''etree'', Opaque),
      (''EarthSunDistance'', Opaque), (''ExtractVariablesFromMetadata'', Opaque),
      (''CalculateTOAR'', Opaque), (''main'', Opaque),
      (''options'', StrDict [(''map'', opt_map args), (''output_prefix'', opt_output_prefix args),
                             (''metadata_xml'', opt_metadata_xml args), (''band'', opt_band args)]),
      (''flags'', FlagDict [(''n'', flag_n args), (''r'', flag_r args)])]"

definition subscript :: "pyobj \<Rightarrow> string \<Rightarrow> pyexn + string" where
  "subscript obj k =
     (case obj of
        Opaque \<Rightarrow> Inl TypeError
      | StrDict d \<Rightarrow> getitem d k
      | FlagDict d \<Rightarrow>
          (case map_of d k of None \<Rightarrow> Inl (KeyError k)
           | Some b \<Rightarrow> Inr (if b then ''True'' else ''False'')))"

text \<open>The expression \<open>bandLookup[band]\<close> of line 202, under the global names \<open>G\<close>.\<close>

definition band_code :: "(string \<times> pyobj) list \<Rightarrow> string \<Rightarrow> pyexn + string" where
  "band_code G band =
     (case map_of G ''bandLookup'' of
        None \<Rightarrow> Inl (NameError ''bandLookup'')
      | Some obj \<Rightarrow> subscript obj band)"

definition main ::
  "(string \<Rightarrow> real option) \<Rightarrow> (string \<times> pyobj) list \<Rightarrow> filesystem \<Rightarrow> invocation
     \<Rightarrow> event list \<times> (pyexn + unit)" where
  "main pyfloat G fs args =
     (let input_map = opt_map args;
          output_prefix = opt_output_prefix args;
          metadata_path = opt_metadata_xml args;
          band = opt_band args;
          use_band_names = flag_n args;
          radiance = flag_r args
      in case output_name output_prefix band use_band_names of
           Inl e \<Rightarrow> ([], Inl e)
         | Inr output \<Rightarrow>
             (case band_code G band of
                Inl e \<Rightarrow> ([], Inl e)
              | Inr code \<Rightarrow>
                  (case ExtractVariablesFromMetadata pyfloat fs metadata_path code of
                     (ev, Inl e) \<Rightarrow> (ev, Inl e)
                   | (ev, Inr variables) \<Rightarrow>
                       (case CalculateTOAR input_map variables output radiance of
                          (ev', r) \<Rightarrow> (ev @ ev', r)))))"

subsection \<open>The formulas of the specification\<close>

text \<open>
  The definitions of this part follow the words of the specification, not the
  script; the theorems below compare them with the script.

  Step 1 of the distance algorithm: January and February count as months 13 and 14 of
  the year before. Step 3: the fractional hour of the day.
\<close>

definition spec_step1 :: "datetime \<Rightarrow> int \<times> int" where
  "spec_step1 t =
     (if dt_month t = 1 \<or> dt_month t = 2 then (dt_year t - 1, dt_month t + 12)
      else (dt_year t, dt_month t))"

definition spec_UT :: "datetime \<Rightarrow> real" where
  "spec_UT t = of_int (dt_hour t) + of_int (dt_minute t) / 60
               + (of_int (dt_second t) + of_int (dt_microsecond t) / 1000000) / 3600"

text \<open>Steps 2 and 4 to 7, for the year and month they are given.\<close>

definition spec_distance :: "int \<Rightarrow> int \<Rightarrow> int \<Rightarrow> real \<Rightarrow> real" where
  "spec_distance year month day UT =
     (let A = \<lfloor>of_int year / (100::real)\<rfloor>;
          B = 2 - A + \<lfloor>of_int A / (4::real)\<rfloor>;
          JD = of_int \<lfloor>365.25 * of_int (year + 4716) :: real\<rfloor>
               + of_int \<lfloor>30.6001 * of_int (month + 1) :: real\<rfloor>
               + of_int day + UT / 24 + of_int B - 1524.5;
          D = JD - 2451545;
          g = radians (357.529 + 0.98560028 * D)
      in 1.00014 - 0.01671 * cos g - 0.00014 * cos (2 * g))"

text \<open>
  The algorithm with step 1 read as the specification words it, "for the purposes of
  steps 2 and 3 only": \<open>A\<close> and \<open>B\<close> from the shifted year, the Julian day of step 4
  from the year and month of the timestamp.
\<close>

definition spec_distance_steps23 :: "datetime \<Rightarrow> real" where
  "spec_distance_steps23 t =
     (let (year, month) = spec_step1 t;
          A = \<lfloor>of_int year / (100::real)\<rfloor>;
          B = 2 - A + \<lfloor>of_int A / (4::real)\<rfloor>;
          UT = spec_UT t;
          JD = of_int \<lfloor>365.25 * of_int (dt_year t + 4716) :: real\<rfloor>
               + of_int \<lfloor>30.6001 * of_int (dt_month t + 1) :: real\<rfloor>
               + of_int (dt_day t) + UT / 24 + of_int B - 1524.5;
          D = JD - 2451545;
          g = radians (357.529 + 0.98560028 * D)
      in 1.00014 - 0.01671 * cos g - 0.00014 * cos (2 * g))"

text \<open>
  The fixed textual format of the acquisition time, \<open>YYYY-MM-DDTHH:MM:SS.ffffffZ\<close>:
  the text of a calendar instant, every field padded with zeros to its width.
\<close>

definition digit_char :: "int \<Rightarrow> char" where
  "digit_char n = ''0123456789'' ! nat n"

definition pad2 :: "int \<Rightarrow> string" where
  "pad2 n = [digit_char (n div 10), digit_char (n mod 10)]"

definition pad4 :: "int \<Rightarrow> string" where
  "pad4 n = pad2 (n div 100) @ pad2 (n mod 100)"

definition pad6 :: "int \<Rightarrow> string" where
  "pad6 n = pad2 (n div 10000) @ pad4 (n mod 10000)"

definition spec_timestamp_text :: "datetime \<Rightarrow> string" where
  "spec_timestamp_text t =
     pad4 (dt_year t) @ ''-'' @ pad2 (dt_month t) @ ''-'' @ pad2 (dt_day t) @ ''T''
     @ pad2 (dt_hour t) @ '':'' @ pad2 (dt_minute t) @ '':'' @ pad2 (dt_second t) @ ''.''
     @ pad6 (dt_microsecond t) @ ''Z''"

text \<open>The two transfer functions.\<close>

definition spec_radiance :: "real \<Rightarrow> real \<Rightarrow> real \<Rightarrow> real" where
  "spec_radiance absoluteCalibrationFactor DN effectiveBandwidth =
     (absoluteCalibrationFactor * DN) / effectiveBandwidth"

definition spec_reflectance :: "real \<Rightarrow> real \<Rightarrow> real \<Rightarrow> real \<Rightarrow> real \<Rightarrow> real \<Rightarrow> real" where
  "spec_reflectance absoluteCalibrationFactor DN effectiveBandwidth earthSunDistanceAU
       solarIrradiance solarZenithDeg =
     ((absoluteCalibrationFactor * DN) / effectiveBandwidth) * earthSunDistanceAU\<^sup>2 * pi
       / (solarIrradiance * cos (radians solarZenithDeg))"

text \<open>
  The four fields that extraction requires of the document, and what it is for one of
  them to be missing: no node at its path, or a node without text.
\<close>

definition required_fields :: "string \<Rightarrow> string list list" where
  "required_fields band =
     [[''IMD'', band, ''ABSCALFACTOR''],
      [''IMD'', band, ''EFFECTIVEBANDWIDTH''],
      [''IMD'', ''IMAGE'', ''MEANSUNEL''],
      [''IMD'', ''MAP_PROJECTED_PRODUCT'', ''EARLIESTACQTIME'']]"

definition field_missing :: "element \<Rightarrow> string list \<Rightarrow> bool" where
  "field_missing rootel path =
     (case find_el rootel path of None \<Rightarrow> True | Some e \<Rightarrow> el_text e = None)"

text \<open>
  A run produces an output raster only through a map-algebra request. A failure is
  handled when the script ends it in order, by \<open>sys.exit\<close>; any other exception that
  leaves \<open>main\<close> ends the interpreter with a traceback.
\<close>

fun is_mapcalc :: "event \<Rightarrow> bool" where
  "is_mapcalc (Mapcalc output e) = True"
| "is_mapcalc _ = False"

definition no_raster :: "event list \<Rightarrow> bool" where
  "no_raster tr = (filter is_mapcalc tr = [])"

fun is_exit :: "pyexn \<Rightarrow> bool" where
  "is_exit (SystemExit n) = True"
| "is_exit _ = False"

definition handled_failure :: "event list \<times> (pyexn + 'a) \<Rightarrow> bool" where
  "handled_failure r = (case snd r of Inl e \<Rightarrow> is_exit e | Inr x \<Rightarrow> False)"

subsection \<open>Inputs for the examples\<close>

text \<open>
  A conversion that agrees with \<open>float\<close> on unsigned decimals written with digits and
  at most one point; a metadata document for the red band, the same document without
  the calibration factor of that band, and a file system holding them and a file that
  is not markup.
\<close>

definition all_digits :: "string \<Rightarrow> bool" where
  "all_digits s = (s \<noteq> [] \<and> list_all digit s)"

definition decimal :: "string \<Rightarrow> real option" where
  "decimal s =
     (case upto ''.'' s of
        None \<Rightarrow> if all_digits s then Some (of_int (int_of_field s)) else None
      | Some (i, f) \<Rightarrow>
          if all_digits i \<and> all_digits f
          then Some (of_int (int_of_field i) + of_int (int_of_field f) / 10 ^ length f)
          else None)"

definition red_band :: "element list \<Rightarrow> element" where
  "red_band band_fields =
     Element ''isd'' None
       [Element ''IMD'' None
          [Element ''BAND_R'' None band_fields,
           Element ''IMAGE'' None [Element ''MEANSUNEL'' (Some ''60'') []],
           Element ''MAP_PROJECTED_PRODUCT'' None
             [Element ''EARLIESTACQTIME'' (Some ''2013-07-12T16:00:00.000000Z'') []]]]"

definition sample_doc :: element where
  "sample_doc = red_band [Element ''ABSCALFACTOR'' (Some ''0.01'') [],
                          Element ''EFFECTIVEBANDWIDTH'' (Some ''50'') []]"

definition doc_without_abscal :: element where
  "doc_without_abscal = red_band [Element ''EFFECTIVEBANDWIDTH'' (Some ''50'') []]"

definition sample_fs :: filesystem where
  "sample_fs path =
     (if path = ''meta.xml'' then Some (Document sample_doc)
      else if path = ''no_abscal.xml'' then Some (Document doc_without_abscal)
      else if path = ''broken.xml'' then Some Malformed
      else None)"

definition sample_env :: "string \<Rightarrow> real option" where
  "sample_env r = (if r = ''wv2_red'' then Some 1000 else None)"

definition sample_args :: invocation where
  "sample_args = \<lparr>opt_map = ''wv2_red'', opt_output_prefix = ''toa'',
                   opt_metadata_xml = ''meta.xml'', opt_band = ''Red'',
                   flag_n = False, flag_r = False\<rparr>"

definition jul12 :: datetime where
  "jul12 = \<lparr>dt_year = 2013, dt_month = 7, dt_day = 12, dt_hour = 16, dt_minute = 0,
             dt_second = 0, dt_microsecond = 0\<rparr>"

definition jan15 :: datetime where
  "jan15 = \<lparr>dt_year = 2013, dt_month = 1, dt_day = 15, dt_hour = 0, dt_minute = 0,
             dt_second = 0, dt_microsecond = 0\<rparr>"

text \<open>The global names of a script in which line 202 finds its table.\<close>

definition repaired_globals :: "invocation \<Rightarrow> (string \<times> pyobj) list" where
  "repaired_globals args = (''bandLookup'', StrDict band_lookup) # script_globals args"


section \<open>Properties\<close>

subsection \<open>Truncation, floor and the cosine\<close>

lemma py_int_nonneg: "0 \<le> x \<Longrightarrow> py_int x = \<lfloor>x\<rfloor>"
  by (simp add: py_int_def)

lemma floor_div_int: "\<lfloor>of_int a / (of_int b :: real)\<rfloor> = a div b"
  by (simp add: floor_divide_of_int_eq)

text \<open>
  Under Python 3 \<open>year / 100\<close> and \<open>A / 4\<close> are true divisions and \<open>int\<close>
  truncates them; for the years of a \<open>datetime\<close> that is the floor division written in
  \<open>distance_of\<close>.
\<close>

lemma true_division_agrees:
  "0 \<le> y \<Longrightarrow> 0 < d \<Longrightarrow> py_int (of_int y / of_int d) = y div d"
  using floor_div_int [of y d] by (simp add: py_int_def)

lemma strptime_valid: "strptime date = Inr t \<Longrightarrow> valid_datetime t"
  by (auto simp: strptime_def Let_def split: option.splits prod.splits if_splits)

lemma distance_of_spec:
  assumes "1 \<le> dt_year t" "1 \<le> dt_month t"
  shows "distance_of t =
           spec_distance (fst (spec_step1 t)) (snd (spec_step1 t)) (dt_day t) (spec_UT t)"
proof -
  obtain year month where s: "spec_step1 t = (year, month)"
    by (cases "spec_step1 t")
  have ym: "0 \<le> year" "1 \<le> month"
    using s assms by (auto simp: spec_step1_def split: if_splits)
  have d: "(if dt_month t = 1 \<or> dt_month t = 2
            then (dt_month t + 12, dt_year t - 1)
            else (dt_month t, dt_year t)) = (month, year)"
    using s by (auto simp: spec_step1_def split: if_splits)
  have "0 \<le> (365.25::real) * of_int (year + 4716)"
    using ym by simp
  then have p1: "py_int (365.25 * of_int (year + 4716))
                   = \<lfloor>365.25 * of_int (year + 4716) :: real\<rfloor>"
    by (rule py_int_nonneg)
  have "0 \<le> (30.6001::real) * of_int (month + 1)"
    using ym by simp
  then have p2: "py_int (30.6001 * of_int (month + 1))
                   = \<lfloor>30.6001 * of_int (month + 1) :: real\<rfloor>"
    by (rule py_int_nonneg)
  have A: "\<lfloor>of_int y / (100::real)\<rfloor> = y div 100" for y :: int
    using floor_div_int [of y 100] by simp
  have B: "\<lfloor>of_int a / (4::real)\<rfloor> = a div 4" for a :: int
    using floor_div_int [of a 4] by simp
  show ?thesis
    unfolding distance_of_def spec_distance_def spec_UT_def s d
    by (simp only: Let_def split_conv fst_conv snd_conv p1 p2 A B)
qed

lemma parsed_distance:
  assumes "strptime date = Inr t"
  shows "EarthSunDistance date =
           Inr (spec_distance (fst (spec_step1 t)) (snd (spec_step1 t)) (dt_day t) (spec_UT t))"
proof -
  have "valid_datetime t"
    using assms by (rule strptime_valid)
  then have "1 \<le> dt_year t" "1 \<le> dt_month t"
    by (simp_all add: valid_datetime_def)
  then have "distance_of t =
      spec_distance (fst (spec_step1 t)) (snd (spec_step1 t)) (dt_day t) (spec_UT t)"
    by (rule distance_of_spec)
  then show ?thesis
    using assms by (simp add: EarthSunDistance_def)
qed

lemma series_bounds:
  fixes g :: real
  shows "0.983 \<le> 1.00014 - 0.01671 * cos g - 0.00014 * cos (2 * g)"
    and "1.00014 - 0.01671 * cos g - 0.00014 * cos (2 * g) \<le> 1.017"
proof -
  have a: "-1 \<le> cos g" "cos g \<le> 1" "-1 \<le> cos (2 * g)" "cos (2 * g) \<le> 1"
    by simp_all
  show "0.983 \<le> 1.00014 - 0.01671 * cos g - 0.00014 * cos (2 * g)"
    using a by (simp; linarith)
  show "1.00014 - 0.01671 * cos g - 0.00014 * cos (2 * g) \<le> 1.017"
    using a by (simp; linarith)
qed

lemma distance_of_bounds: "0.983 \<le> distance_of t \<and> distance_of t \<le> 1.017"
  unfolding distance_of_def Let_def
  by (simp only: split_beta series_bounds simp_thms)

lemma cos_add_turns: "cos (x + of_nat n * (2 * pi)) = cos (x::real)"
proof (induction n)
  case 0
  show ?case by simp
next
  case (Suc n)
  have "x + of_nat (Suc n) * (2 * pi) = (x + of_nat n * (2 * pi)) + 2 * pi"
    by (simp add: algebra_simps)
  then show ?case
    using Suc by (simp only: cos_periodic)
qed

lemma radians_turns: "radians (x + 360 * of_nat n) = radians x + of_nat n * (2 * pi)"
  by (simp add: radians_def algebra_simps add_divide_distrib)

lemma cos_radians_turns: "cos (radians (x + 360 * of_nat n)) = cos (radians x)"
  by (simp only: radians_turns cos_add_turns)

lemma cos_2radians_turns: "cos (2 * radians (x + 360 * of_nat n)) = cos (2 * radians x)"
proof -
  have "2 * radians (x + 360 * of_nat n) = 2 * radians x + of_nat (2 * n) * (2 * pi)"
    by (simp add: radians_def algebra_simps add_divide_distrib)
  then show ?thesis
    by (simp only: cos_add_turns)
qed

text \<open>Between 0 and 90 degrees of mean anomaly the distance grows with the angle.\<close>

lemma series_mono:
  assumes "0 \<le> x" "x < y" "y \<le> 90"
  shows "1.00014 - 0.01671 * cos (radians x) - 0.00014 * cos (2 * radians x)
       < 1.00014 - 0.01671 * cos (radians y) - 0.00014 * cos (2 * radians y)"
proof -
  have pos: "0 < pi"
    by simp
  have 1: "cos (radians y) < cos (radians x)"
    using assms pos by (intro cos_monotone_0_pi) (simp_all add: radians_def)
  have 2: "cos (2 * radians y) < cos (2 * radians x)"
    using assms pos by (intro cos_monotone_0_pi) (simp_all add: radians_def)
  show ?thesis
    using 1 2 by (simp; linarith)
qed

lemmas strptime_eval =
  strptime_def upto_def digit_def digit19_def re_f_def int_of_field_def
  valid_datetime_def days_in_month_def is_leap_def

lemma strptime_jul12: "strptime ''2013-07-12T16:00:00.000000Z'' = Inr jul12"
  by (simp add: strptime_eval jul12_def)

lemma strptime_jan15: "strptime ''2013-01-15T00:00:00.000000Z'' = Inr jan15"
  by (simp add: strptime_eval jan15_def)

lemma code_jan15: "distance_of jan15
   = 1.00014 - 0.01671 * cos (radians 5051.4503335) - 0.00014 * cos (2 * radians 5051.4503335)"
  by (simp add: distance_of_def py_int_def Let_def jan15_def)

lemma spec_jan15: "spec_distance_steps23 jan15
   = 1.00014 - 0.01671 * cos (radians 5049.47913294) - 0.00014 * cos (2 * radians 5049.47913294)"
  by (simp add: spec_distance_steps23_def spec_step1_def spec_UT_def Let_def jan15_def)

lemma jan15_differs: "spec_distance_steps23 jan15 < distance_of jan15"
proof -
  have a: "(5051.4503335::real) = 11.4503335 + 360 * of_nat 14"
    by simp
  have b: "(5049.47913294::real) = 9.47913294 + 360 * of_nat 14"
    by simp
  show ?thesis
    unfolding code_jan15 spec_jan15
    apply (subst a, subst a, subst b, subst b)
    apply (simp only: cos_radians_turns cos_2radians_turns)
    apply (rule series_mono)
      apply simp_all
    done
qed

subsection \<open>The text of a timestamp is parsed back\<close>

lemma digit_range:
  "0 \<le> d \<Longrightarrow> d \<le> 9 \<Longrightarrow>
   d = 0 \<or> d = 1 \<or> d = 2 \<or> d = 3 \<or> d = 4 \<or> d = 5 \<or> d = 6 \<or> d = 7 \<or> d = 8 \<or> d = (9::int)"
  by arith

lemma digit_char_digit: "0 \<le> d \<Longrightarrow> d \<le> 9 \<Longrightarrow> digit (digit_char d)"
  using digit_range [of d] by (auto simp: digit_char_def digit_def)

lemma digit_char_val: "0 \<le> d \<Longrightarrow> d \<le> 9 \<Longrightarrow> int (of_char (digit_char d)) - 48 = d"
  using digit_range [of d] by (auto simp: digit_char_def)

lemma digit_char_nosep:
  "0 \<le> d \<Longrightarrow> d \<le> 9 \<Longrightarrow> digit_char d \<notin> set ''-Tt:.Zz ''"
  using digit_range [of d] by (auto simp: digit_char_def)


lemma pad2_shape:
  fixes n :: int
  assumes "0 \<le> n" "n \<le> 99"
  shows "0 \<le> n div 10" "n div 10 \<le> 9" "0 \<le> n mod 10" "n mod 10 \<le> 9"
  using assms by auto

lemma int_of_pad2: "0 \<le> n \<Longrightarrow> n \<le> 99 \<Longrightarrow> int_of_field (pad2 n) = n"
proof -
  assume a: "0 \<le> n" "n \<le> 99"
  note s = pad2_shape [OF a]
  have sp: "digit_char (n div 10) \<noteq> CHR '' ''" "digit_char (n mod 10) \<noteq> CHR '' ''"
    using digit_char_nosep [OF s(1,2)] digit_char_nosep [OF s(3,4)] by simp_all
  show ?thesis
    using digit_char_val [OF s(1,2)] digit_char_val [OF s(3,4)] sp
    by (simp add: int_of_field_def pad2_def)
qed

lemma re_m_all: "\<forall>n\<in>{1..12::int}. re_m (pad2 n)"
  by code_simp

lemma re_d_all: "\<forall>n\<in>{1..31::int}. re_d (pad2 n)"
  by code_simp

lemma re_H_all: "\<forall>n\<in>{0..23::int}. re_H (pad2 n)"
  by code_simp

lemma re_M_all: "\<forall>n\<in>{0..59::int}. re_M (pad2 n)"
  by code_simp

lemma re_S_all: "\<forall>n\<in>{0..59::int}. re_S (pad2 n)"
  by code_simp


lemma pad2_digits: "0 \<le> n \<Longrightarrow> n \<le> 99 \<Longrightarrow> list_all digit (pad2 n)"
  using pad2_shape [of n] by (simp add: pad2_def digit_char_digit)

lemma pad2_nosep:
  "0 \<le> n \<Longrightarrow> n \<le> 99 \<Longrightarrow> set (pad2 n) \<inter> set ''-Tt:.Zz '' = {}"
  using pad2_shape [of n] digit_char_nosep [of "n div 10"] digit_char_nosep [of "n mod 10"]
  by (simp add: pad2_def)

lemma int_of_field_append:
  "int_of_field (xs @ ys) = foldl (\<lambda>n c. 10 * n + (int (of_char c) - 48)) (int_of_field xs)
                               (filter (\<lambda>c. c \<noteq> CHR '' '') ys)"
  by (simp add: int_of_field_def)

lemma int_of_field_pad2_after:
  assumes "0 \<le> n" "n \<le> 99"
  shows "int_of_field (xs @ pad2 n) = 100 * int_of_field xs + n"
proof -
  note s = pad2_shape [OF assms]
  have sp: "digit_char (n div 10) \<noteq> CHR '' ''" "digit_char (n mod 10) \<noteq> CHR '' ''"
    using digit_char_nosep [OF s(1,2)] digit_char_nosep [OF s(3,4)] by simp_all
  show ?thesis
    using digit_char_val [OF s(1,2)] digit_char_val [OF s(3,4)] sp
    by (simp add: int_of_field_append pad2_def)
qed

lemma pad4_parts:
  fixes n :: int
  assumes "0 \<le> n" "n \<le> 9999"
  shows "0 \<le> n div 100" "n div 100 \<le> 99" "0 \<le> n mod 100" "n mod 100 \<le> 99"
  using assms by auto

lemma int_of_pad4: "0 \<le> n \<Longrightarrow> n \<le> 9999 \<Longrightarrow> int_of_field (pad4 n) = n"
  using pad4_parts [of n]
  by (simp add: pad4_def int_of_field_pad2_after int_of_pad2)

lemma re_Y_pad4: "0 \<le> n \<Longrightarrow> n \<le> 9999 \<Longrightarrow> re_Y (pad4 n)"
  using pad4_parts [of n] pad2_digits [of "n div 100"] pad2_digits [of "n mod 100"]
  by (simp add: pad4_def pad2_def)

lemma pad4_nosep:
  "0 \<le> n \<Longrightarrow> n \<le> 9999 \<Longrightarrow> set (pad4 n) \<inter> set ''-Tt:.Zz '' = {}"
  using pad4_parts [of n] pad2_nosep [of "n div 100"] pad2_nosep [of "n mod 100"]
  by (simp add: pad4_def Int_Un_distrib2)

lemma pad6_parts:
  fixes n :: int
  assumes "0 \<le> n" "n \<le> 999999"
  shows "0 \<le> n div 10000" "n div 10000 \<le> 99" "0 \<le> n mod 10000" "n mod 10000 \<le> 9999"
  using assms by auto

lemma pad6_nosep:
  "0 \<le> n \<Longrightarrow> n \<le> 999999 \<Longrightarrow> set (pad6 n) \<inter> set ''-Tt:.Zz '' = {}"
  using pad6_parts [of n] pad2_nosep [of "n div 10000"] pad4_nosep [of "n mod 10000"]
  by (simp add: pad6_def Int_Un_distrib2)

lemma length_pad6: "length (pad6 n) = 6"
  by (simp add: pad6_def pad4_def pad2_def)

lemma int_of_pad6: "0 \<le> n \<Longrightarrow> n \<le> 999999 \<Longrightarrow> int_of_field (pad6 n) = n"
proof -
  assume a: "0 \<le> n" "n \<le> 999999"
  note s = pad6_parts [OF a]
  note t = pad4_parts [OF s(3,4)]
  have "pad6 n = (pad2 (n div 10000) @ pad2 (n mod 10000 div 100)) @ pad2 (n mod 10000 mod 100)"
    by (simp add: pad6_def pad4_def)
  then have "int_of_field (pad6 n)
             = 100 * (100 * (n div 10000) + n mod 10000 div 100) + n mod 10000 mod 100"
    using s t by (simp only: int_of_field_pad2_after int_of_pad2)
  also have "\<dots> = n"
    by presburger
  finally show ?thesis .
qed

lemma re_f_pad6: "0 \<le> n \<Longrightarrow> n \<le> 999999 \<Longrightarrow> re_f (pad6 n)"
proof -
  assume a: "0 \<le> n" "n \<le> 999999"
  note s = pad6_parts [OF a]
  note t = pad4_parts [OF s(3,4)]
  have "list_all digit (pad6 n)"
    using pad2_digits [OF s(1,2)] pad2_digits [OF t(1,2)] pad2_digits [OF t(3,4)]
    by (simp add: pad6_def pad4_def)
  then show ?thesis
    by (simp add: re_f_def length_pad6 list_all_iff)
qed

lemma upto_field:
  assumes "set xs \<inter> set ''-Tt:.Zz '' = {}" "set seps \<subseteq> set ''-Tt:.Zz ''" "c \<in> set seps"
  shows "upto seps (xs @ c # rest) = Some (xs, rest)"
proof -
  have n: "\<forall>x\<in>set xs. x \<notin> set seps"
    using assms(1,2) by blast
  then have "dropWhile (\<lambda>c. c \<notin> set seps) (xs @ c # rest) = c # rest"
    using assms(3) by (simp add: dropWhile_append3)
  moreover have "takeWhile (\<lambda>c. c \<notin> set seps) (xs @ c # rest) = xs"
    using n assms(3) by (simp add: takeWhile_tail)
  ultimately show ?thesis
    by (simp add: upto_def)
qed


lemma days_in_month_le: "days_in_month y m \<le> 31"
  by (simp add: days_in_month_def)

lemma strptime_canonical:
  assumes v: "valid_datetime t"
  shows "strptime (spec_timestamp_text t) = Inr t"
proof -
  have y: "0 \<le> dt_year t" "dt_year t \<le> 9999"
    and m: "1 \<le> dt_month t" "dt_month t \<le> 12"
    and d: "1 \<le> dt_day t" "dt_day t \<le> 31"
    and H: "0 \<le> dt_hour t" "dt_hour t \<le> 23"
    and M: "0 \<le> dt_minute t" "dt_minute t \<le> 59"
    and S: "0 \<le> dt_second t" "dt_second t \<le> 59"
    and f: "0 \<le> dt_microsecond t" "dt_microsecond t \<le> 999999"
    using v days_in_month_le [of "dt_year t" "dt_month t"]
    by (auto simp: valid_datetime_def)
  define s7 :: string where "s7 = []"
  define s6 where "s6 = pad6 (dt_microsecond t) @ CHR ''Z'' # s7"
  define s5 where "s5 = pad2 (dt_second t) @ CHR ''.'' # s6"
  define s4 where "s4 = pad2 (dt_minute t) @ CHR '':'' # s5"
  define s3 where "s3 = pad2 (dt_hour t) @ CHR '':'' # s4"
  define s2 where "s2 = pad2 (dt_day t) @ CHR ''T'' # s3"
  define s1 where "s1 = pad2 (dt_month t) @ CHR ''-'' # s2"
  have shape: "spec_timestamp_text t = pad4 (dt_year t) @ CHR ''-'' # s1"
    by (simp add: spec_timestamp_text_def s1_def s2_def s3_def s4_def s5_def s6_def s7_def)
  have u1: "upto ''-'' (pad4 (dt_year t) @ CHR ''-'' # s1) = Some (pad4 (dt_year t), s1)"
    using y by (intro upto_field pad4_nosep) simp_all
  have u2: "upto ''-'' s1 = Some (pad2 (dt_month t), s2)"
    unfolding s1_def using m by (intro upto_field pad2_nosep) simp_all
  have u3: "upto ''Tt'' s2 = Some (pad2 (dt_day t), s3)"
    unfolding s2_def using d by (intro upto_field pad2_nosep) simp_all
  have u4: "upto '':'' s3 = Some (pad2 (dt_hour t), s4)"
    unfolding s3_def using H by (intro upto_field pad2_nosep) simp_all
  have u5: "upto '':'' s4 = Some (pad2 (dt_minute t), s5)"
    unfolding s4_def using M by (intro upto_field pad2_nosep) simp_all
  have u6: "upto ''.'' s5 = Some (pad2 (dt_second t), s6)"
    unfolding s5_def using S by (intro upto_field pad2_nosep) simp_all
  have u7: "upto ''Zz'' s6 = Some (pad6 (dt_microsecond t), s7)"
    unfolding s6_def using f by (intro upto_field pad6_nosep) simp_all
  have re: "re_Y (pad4 (dt_year t))" "re_m (pad2 (dt_month t))" "re_d (pad2 (dt_day t))"
    "re_H (pad2 (dt_hour t))" "re_M (pad2 (dt_minute t))" "re_S (pad2 (dt_second t))"
    "re_f (pad6 (dt_microsecond t))"
    using y m d H M S f re_Y_pad4 re_m_all re_d_all re_H_all re_M_all re_S_all re_f_pad6
    by simp_all
  have vals: "int_of_field (pad4 (dt_year t)) = dt_year t"
    "int_of_field (pad2 (dt_month t)) = dt_month t"
    "int_of_field (pad2 (dt_day t)) = dt_day t"
    "int_of_field (pad2 (dt_hour t)) = dt_hour t"
    "int_of_field (pad2 (dt_minute t)) = dt_minute t"
    "int_of_field (pad2 (dt_second t)) = dt_second t"
    "int_of_field (pad6 (dt_microsecond t)) = dt_microsecond t"
    using y m d H M S f by (simp_all add: int_of_pad4 int_of_pad2 int_of_pad6)
  have r: "\<lparr>dt_year = dt_year t, dt_month = dt_month t, dt_day = dt_day t,
            dt_hour = dt_hour t, dt_minute = dt_minute t, dt_second = dt_second t,
            dt_microsecond = dt_microsecond t\<rparr> = t"
    by simp
  show ?thesis
    unfolding shape strptime_def
    by (simp add: u1 u2 u3 u4 u5 u6 u7 re vals length_pad6 s7_def r v)
qed

subsection \<open>The Earth-Sun distance\<close>

text \<open>
  Claim C3. For every calendar instant written in the fixed format, and for every other
  text that \<open>strptime\<close> accepts, \<open>EarthSunDistance\<close> returns a value and raises
  nothing, and the value is the one the formulas of the specification give:
  \<open>A = floor(year / 100)\<close>, \<open>B = 2 - A + floor(A / 4)\<close>, the fractional hour \<open>UT\<close>,
  \<open>JD = floor(365.25 * (year + 4716)) + floor(30.6001 * (month + 1)) + day + UT / 24 + B -
  1524.5\<close>, \<open>D = JD - 2451545\<close>, \<open>g = radians(357.529 + 0.98560028 * D)\<close> and
  \<open>1.00014 - 0.01671 * cos g - 0.00014 * cos 2g\<close>. Here \<open>year\<close> and \<open>month\<close> are the
  values that step 1 leaves, and the script's truncations towards zero are floors because
  their operands are not negative.
\<close>

theorem EarthSunDistance_computes_spec_formula:
  assumes "valid_datetime u"
    and "strptime date = Inr t"
  shows "EarthSunDistance (spec_timestamp_text u) =
           Inr (spec_distance (fst (spec_step1 u)) (snd (spec_step1 u)) (dt_day u) (spec_UT u))
       \<and> EarthSunDistance date =
           Inr (spec_distance (fst (spec_step1 t)) (snd (spec_step1 t)) (dt_day t) (spec_UT t))
       \<and> py_int (365.25 * of_int (fst (spec_step1 t) + 4716))
           = \<lfloor>365.25 * of_int (fst (spec_step1 t) + 4716) :: real\<rfloor>
       \<and> py_int (30.6001 * of_int (snd (spec_step1 t) + 1))
           = \<lfloor>30.6001 * of_int (snd (spec_step1 t) + 1) :: real\<rfloor>"
proof -
  have "valid_datetime t"
    using assms(2) by (rule strptime_valid)
  then have ym: "0 \<le> fst (spec_step1 t)" "1 \<le> snd (spec_step1 t)"
    by (auto simp: valid_datetime_def spec_step1_def)
  have "0 \<le> (365.25::real) * of_int (fst (spec_step1 t) + 4716)"
    using ym by simp
  then have 1: "py_int (365.25 * of_int (fst (spec_step1 t) + 4716))
       = \<lfloor>365.25 * of_int (fst (spec_step1 t) + 4716) :: real\<rfloor>"
    by (rule py_int_nonneg)
  have "0 \<le> (30.6001::real) * of_int (snd (spec_step1 t) + 1)"
    using ym by simp
  then have 2: "py_int (30.6001 * of_int (snd (spec_step1 t) + 1))
       = \<lfloor>30.6001 * of_int (snd (spec_step1 t) + 1) :: real\<rfloor>"
    by (rule py_int_nonneg)
  have "strptime (spec_timestamp_text u) = Inr u"
    using assms(1) by (rule strptime_canonical)
  then have 3: "EarthSunDistance (spec_timestamp_text u) =
           Inr (spec_distance (fst (spec_step1 u)) (snd (spec_step1 u)) (dt_day u) (spec_UT u))"
    by (rule parsed_distance)
  show ?thesis
    using parsed_distance [OF assms(2)] 1 2 3 by blast
qed

theorem EarthSunDistance_computes_spec_formula_witness:
  "valid_datetime jul12
   \<and> spec_timestamp_text jul12 = ''2013-07-12T16:00:00.000000Z''
   \<and> strptime ''2013-07-12T16:00:00.000000Z'' = Inr jul12
   \<and> EarthSunDistance ''2013-07-12T16:00:00.000000Z''
       = Inr (spec_distance 2013 7 12 16)"
proof -
  have v: "valid_datetime jul12"
    by (simp add: valid_datetime_def days_in_month_def jul12_def)
  have c: "spec_timestamp_text jul12 = ''2013-07-12T16:00:00.000000Z''"
    by (simp add: spec_timestamp_text_def pad6_def pad4_def pad2_def digit_char_def jul12_def)
  show ?thesis
    using EarthSunDistance_computes_spec_formula [OF v strptime_jul12] v c
    by (simp add: strptime_jul12 spec_step1_def spec_UT_def jul12_def)
qed

text \<open>
  Claim C4, as stated: for a timestamp of January or February the shift to month + 12
  of the year before serves steps 2 and 3 only, and the Julian day is computed from the
  year and month of the timestamp. The script does otherwise: for 15 January 2013 it
  returns a distance greater than the one of that reading.
\<close>

theorem shift_not_confined_to_steps_2_3:
  "EarthSunDistance ''2013-01-15T00:00:00.000000Z'' \<noteq> Inr (spec_distance_steps23 jan15)"
  using jan15_differs by (simp add: EarthSunDistance_def strptime_jan15)

text \<open>
  Claim C4, amended: for a timestamp of January or February the script uses month + 12
  and the year before in step 2 (\<open>A\<close> and \<open>B\<close>) and in the two truncated terms of the
  Julian day of step 4; the day and the fractional hour are those of the timestamp.
\<close>

theorem january_february_shift:
  "strptime date = Inr t \<Longrightarrow> dt_month t = 1 \<or> dt_month t = 2 \<Longrightarrow>
   EarthSunDistance date =
     Inr (spec_distance (dt_year t - 1) (dt_month t + 12) (dt_day t) (spec_UT t))"
  using parsed_distance [of date t] by (simp add: spec_step1_def)

theorem january_february_shift_witness:
  "strptime ''2013-01-15T00:00:00.000000Z'' = Inr jan15
   \<and> dt_month jan15 = 1
   \<and> EarthSunDistance ''2013-01-15T00:00:00.000000Z'' = Inr (spec_distance 2012 13 15 0)"
proof -
  have m: "dt_month jan15 = 1 \<or> dt_month jan15 = 2"
    by (simp add: jan15_def)
  show ?thesis
    using january_february_shift [OF strptime_jan15 m]
    by (simp add: strptime_jan15 spec_UT_def jan15_def)
qed

text \<open>
  Claim C10. For the acquisition time \<open>2013-07-12T16:00:00.000000Z\<close> the script returns
  a distance between 0.983 and 1.017 astronomical units.
\<close>

theorem distance_july_2013_in_range:
  "\<exists>d. EarthSunDistance ''2013-07-12T16:00:00.000000Z'' = Inr d \<and> 0.983 \<le> d \<and> d \<le> 1.017"
  using distance_of_bounds [of jul12] by (simp add: EarthSunDistance_def strptime_jul12)

subsection \<open>The transfer functions\<close>

lemma calc_radiance:
  "calc raster [a, theta, esd, eSun, efb] True = Inr (Div (Mul (Num a) (Rast raster)) (Num efb))"
  by (simp add: calc_def item_def bind_exn_def)

lemma calc_reflectance:
  "calc raster [a, theta, esd, eSun, efb] False =
     Inr (Div (Mul (Mul (Div (Mul (Num a) (Rast raster)) (Num efb)) (Pow (Num esd) 2)) (Num pi))
              (Mul (Num eSun) (Cos (Num theta))))"
  by (simp add: calc_def item_def bind_exn_def)

lemma radiance_cell:
  assumes "env raster = Some DN" "efb \<noteq> 0"
  shows "cell_value env (Div (Mul (Num a) (Rast raster)) (Num efb)) = Some (spec_radiance a DN efb)"
  using assms by (simp add: null_div_def spec_radiance_def)

lemma reflectance_cell:
  assumes "env raster = Some DN" "efb \<noteq> 0" "eSun * cos (radians theta) \<noteq> 0"
  shows "cell_value env
           (Div (Mul (Mul (Div (Mul (Num a) (Rast raster)) (Num efb)) (Pow (Num esd) 2)) (Num pi))
                (Mul (Num eSun) (Cos (Num theta))))
         = Some (spec_reflectance a DN efb esd eSun theta)"
  using assms by (simp add: null_div_def spec_reflectance_def radians_def)

lemma try_body_shape:
  assumes "try_body pyfloat rootel band = Inr vars"
  shows "\<exists>s el a esd eSun efb.
           text_at rootel [''IMD'', ''IMAGE'', ''MEANSUNEL''] = Inr (Some s)
           \<and> pyfloat s = Some el \<and> vars = [a, 90 - el, esd, eSun, efb]"
  using assms
  by (auto simp: try_body_def bind_exn_def to_float_def split: sum.splits option.splits)

lemma extract_shape:
  assumes "fs path = Some (Document rootel)"
    and "ExtractVariablesFromMetadata pyfloat fs path band = (ev, Inr vars)"
  shows "\<exists>s el a esd eSun efb.
           text_at rootel [''IMD'', ''IMAGE'', ''MEANSUNEL''] = Inr (Some s)
           \<and> pyfloat s = Some el \<and> vars = [a, 90 - el, esd, eSun, efb]"
proof -
  have "try_body pyfloat rootel band = Inr vars"
    using assms by (simp add: ExtractVariablesFromMetadata_def split: sum.splits)
  then show ?thesis
    by (rule try_body_shape)
qed

lemma cos_radians_30: "cos (radians 30) = sqrt 3 / 2"
proof -
  have "radians 30 = pi / 6"
    by (simp add: radians_def)
  then show ?thesis
    by (simp only: cos_30)
qed

lemma decimal_60: "decimal ''60'' = Some 60"
  by (simp add: decimal_def upto_def all_digits_def digit_def int_of_field_def)

lemma decimal_50: "decimal ''50'' = Some 50"
  by (simp add: decimal_def upto_def all_digits_def digit_def int_of_field_def)

lemma decimal_001: "decimal ''0.01'' = Some 0.01"
  by (simp add: decimal_def upto_def all_digits_def digit_def int_of_field_def)

lemma sample_text_at:
  "text_at sample_doc [''IMD'', ''BAND_R'', ''ABSCALFACTOR''] = Inr (Some ''0.01'')"
  "text_at sample_doc [''IMD'', ''BAND_R'', ''EFFECTIVEBANDWIDTH''] = Inr (Some ''50'')"
  "text_at sample_doc [''IMD'', ''IMAGE'', ''MEANSUNEL''] = Inr (Some ''60'')"
  "text_at sample_doc [''IMD'', ''MAP_PROJECTED_PRODUCT'', ''EARLIESTACQTIME'']
     = Inr (Some ''2013-07-12T16:00:00.000000Z'')"
  by (simp_all add: text_at_def find_el_def sample_doc_def red_band_def)

lemma sample_try_body:
  "try_body decimal sample_doc ''BAND_R'' = Inr [0.01, 30, distance_of jul12, 1559.4555, 50]"
  by (simp add: try_body_def sample_text_at bind_exn_def EarthSunDistance_def strptime_jul12
      to_float_def decimal_001 decimal_50 decimal_60 SSI_def)

lemma sample_extract:
  "ExtractVariablesFromMetadata decimal sample_fs ''meta.xml'' ''BAND_R''
     = ([], Inr [0.01, 30, distance_of jul12, 1559.4555, 50])"
  by (simp add: ExtractVariablesFromMetadata_def sample_fs_def sample_try_body)

text \<open>
  Claim C1. In reflectance mode the expression handed to the map calculator has, at
  every cell with pixel value \<open>DN\<close>, the value
  \<open>((absoluteCalibrationFactor * DN) / effectiveBandwidth) * earthSunDistanceAU^2 * pi /
  (solarIrradiance * cos(radians(solarZenithDeg)))\<close>, for every record whose bandwidth
  and whose product of irradiance and cosine are not zero (the calculator gives a null
  cell where it would divide by zero); the second element of an extracted record, the
  solar zenith angle, is 90 minus the mean sun elevation read from the document; and with
  factor 0.01, pixel 1000 and bandwidth 50 (radiance 0.2), distance 1.0, irradiance
  1559.4555 and zenith angle 30 the value is \<open>0.2 * 1.0 * pi / (1559.4555 * cos(30 deg))\<close>.
\<close>

theorem reflectance_mode_formula:
  assumes "env raster = Some DN"
    and "efb \<noteq> 0"
    and "eSun * cos (radians theta) \<noteq> 0"
    and "fs path = Some (Document rootel)"
    and "ExtractVariablesFromMetadata pyfloat fs path band = (ev, Inr vars)"
  shows "(\<exists>expr. CalculateTOAR raster [absCal, theta, esd, eSun, efb] out False
             = ([UseTempRegion, GRegion raster,
                 Message (''Calculating Top of Atmosphere Reflectance for '' @ raster),
                 Mapcalc out expr], Inr ())
           \<and> cell_value env expr = Some (spec_reflectance absCal DN efb esd eSun theta))
       \<and> (\<exists>s el. text_at rootel [''IMD'', ''IMAGE'', ''MEANSUNEL''] = Inr (Some s)
             \<and> pyfloat s = Some el \<and> length vars = 5 \<and> vars ! 1 = 90 - el)
       \<and> (\<exists>expr. calc ''wv2_red'' [0.01, 30, 1.0, 1559.4555, 50] False = Inr expr
             \<and> cell_value sample_env expr = Some (0.2 * 1.0 * pi / (1559.4555 * cos (radians 30))))"
proof -
  have 1: "\<exists>expr. CalculateTOAR raster [absCal, theta, esd, eSun, efb] out False
             = ([UseTempRegion, GRegion raster,
                 Message (''Calculating Top of Atmosphere Reflectance for '' @ raster),
                 Mapcalc out expr], Inr ())
           \<and> cell_value env expr = Some (spec_reflectance absCal DN efb esd eSun theta)"
    using reflectance_cell [where env = env and raster = raster, OF assms(1-3)]
    by (simp add: CalculateTOAR_def calc_reflectance)
  have 2: "\<exists>s el. text_at rootel [''IMD'', ''IMAGE'', ''MEANSUNEL''] = Inr (Some s)
             \<and> pyfloat s = Some el \<and> length vars = 5 \<and> vars ! 1 = 90 - el"
    using extract_shape [OF assms(4,5)] by auto
  have e: "sample_env ''wv2_red'' = Some 1000"
    by (simp add: sample_env_def)
  have n: "(1559.4555::real) * cos (radians 30) \<noteq> 0"
    by (simp add: cos_radians_30)
  have "cell_value sample_env
          (Div (Mul (Mul (Div (Mul (Num 0.01) (Rast ''wv2_red'')) (Num 50)) (Pow (Num 1.0) 2)) (Num pi))
               (Mul (Num 1559.4555) (Cos (Num 30))))
        = Some (spec_reflectance 0.01 1000 50 1.0 1559.4555 30)"
    using e n by (intro reflectance_cell [where env = sample_env and raster = "''wv2_red''"]) simp_all
  moreover have "spec_reflectance 0.01 1000 50 1.0 1559.4555 30
                   = 0.2 * 1.0 * pi / (1559.4555 * cos (radians 30))"
    by (simp add: spec_reflectance_def)
  ultimately have 3: "\<exists>expr. calc ''wv2_red'' [0.01, 30, 1.0, 1559.4555, 50] False = Inr expr
             \<and> cell_value sample_env expr = Some (0.2 * 1.0 * pi / (1559.4555 * cos (radians 30)))"
    by (simp only: calc_reflectance) blast
  show ?thesis
    using 1 2 3 by blast
qed

theorem reflectance_mode_formula_witness:
  "sample_env ''wv2_red'' = Some 1000
   \<and> (50::real) \<noteq> 0
   \<and> (1559.4555::real) * cos (radians 30) \<noteq> 0
   \<and> sample_fs ''meta.xml'' = Some (Document sample_doc)
   \<and> ExtractVariablesFromMetadata decimal sample_fs ''meta.xml'' ''BAND_R''
       = ([], Inr [0.01, 30, distance_of jul12, 1559.4555, 50])
   \<and> (\<exists>expr. CalculateTOAR ''wv2_red'' [0.01, 30, distance_of jul12, 1559.4555, 50] ''toa.5'' False
          = ([UseTempRegion, GRegion ''wv2_red'',
              Message ''Calculating Top of Atmosphere Reflectance for wv2_red'',
              Mapcalc ''toa.5'' expr], Inr ())
        \<and> cell_value sample_env expr
            = Some (spec_reflectance 0.01 1000 50 (distance_of jul12) 1559.4555 30))
   \<and> text_at sample_doc [''IMD'', ''IMAGE'', ''MEANSUNEL''] = Inr (Some ''60'')
   \<and> decimal ''60'' = Some 60"
proof -
  have e: "sample_env ''wv2_red'' = Some 1000"
    by (simp add: sample_env_def)
  have b: "(50::real) \<noteq> 0"
    by simp
  have n: "(1559.4555::real) * cos (radians 30) \<noteq> 0"
    by (simp add: cos_radians_30)
  have f: "sample_fs ''meta.xml'' = Some (Document sample_doc)"
    by (simp add: sample_fs_def)
  show ?thesis
    using reflectance_mode_formula [where env = sample_env and raster = "''wv2_red''"
        and fs = sample_fs and path = "''meta.xml''" and pyfloat = decimal
        and absCal = "0.01" and esd = "distance_of jul12" and out = "''toa.5''",
        OF e b n f sample_extract]
      e n f sample_extract sample_text_at(3) decimal_60
    by simp
qed

text \<open>
  Claim C2. In radiance mode the expression handed to the map calculator has, at every
  cell with pixel value \<open>DN\<close>, the value \<open>(absoluteCalibrationFactor * DN) /
  effectiveBandwidth\<close>, for every record whose bandwidth is not zero; with factor 0.01,
  bandwidth 50 and pixel 1000 the value is 0.2.
\<close>

theorem radiance_mode_formula:
  assumes "env raster = Some DN"
    and "efb \<noteq> 0"
  shows "(\<exists>expr. CalculateTOAR raster [absCal, theta, esd, eSun, efb] out True
             = ([UseTempRegion, GRegion raster,
                 Message (''Calculating Top of Atmosphere Radiance for '' @ raster),
                 Mapcalc out expr], Inr ())
           \<and> cell_value env expr = Some (spec_radiance absCal DN efb))
       \<and> (\<exists>expr. calc ''wv2_red'' [0.01, theta, esd, eSun, 50] True = Inr expr
             \<and> cell_value sample_env expr = Some 0.2)"
proof -
  have 1: "\<exists>expr. CalculateTOAR raster [absCal, theta, esd, eSun, efb] out True
             = ([UseTempRegion, GRegion raster,
                 Message (''Calculating Top of Atmosphere Radiance for '' @ raster),
                 Mapcalc out expr], Inr ())
           \<and> cell_value env expr = Some (spec_radiance absCal DN efb)"
    using radiance_cell [where env = env and raster = raster, OF assms]
    by (simp add: CalculateTOAR_def calc_radiance)
  have "cell_value sample_env (Div (Mul (Num 0.01) (Rast ''wv2_red'')) (Num 50)) = Some 0.2"
    by (simp add: sample_env_def null_div_def)
  then have 2: "\<exists>expr. calc ''wv2_red'' [0.01, theta, esd, eSun, 50] True = Inr expr
             \<and> cell_value sample_env expr = Some 0.2"
    by (simp only: calc_radiance) blast
  show ?thesis
    using 1 2 by blast
qed

theorem radiance_mode_formula_witness:
  "sample_env ''wv2_red'' = Some 1000
   \<and> (50::real) \<noteq> 0
   \<and> (\<exists>expr. CalculateTOAR ''wv2_red'' [0.01, 30, 1, 1559.4555, 50] ''toa.5'' True
          = ([UseTempRegion, GRegion ''wv2_red'',
              Message ''Calculating Top of Atmosphere Radiance for wv2_red'',
              Mapcalc ''toa.5'' expr], Inr ())
        \<and> cell_value sample_env expr = Some 0.2)"
proof -
  have e: "sample_env ''wv2_red'' = Some 1000"
    by (simp add: sample_env_def)
  have b: "(50::real) \<noteq> 0"
    by simp
  show ?thesis
    using radiance_mode_formula [where env = sample_env and raster = "''wv2_red''"
        and absCal = "0.01" and theta = 30 and esd = 1 and eSun = "1559.4555"
        and out = "''toa.5''", OF e b] e
    by (simp add: spec_radiance_def)
qed

text \<open>
  Claim C5. With a solar zenith angle of 0 and an Earth-Sun distance of 1.0, for every
  calibration factor, bandwidth, irradiance and cell, the value of the reflectance
  expression is the value of the radiance expression multiplied by pi and divided by the
  irradiance (a division of the map calculator: null where the irradiance is zero, and
  null where the radiance is).
\<close>

theorem reflectance_reduces_to_radiance:
  "\<exists>rad refl. calc raster [absCal, 0, 1, eSun, efb] True = Inr rad
     \<and> calc raster [absCal, 0, 1, eSun, efb] False = Inr refl
     \<and> cell_value env refl =
         (case cell_value env rad of None \<Rightarrow> None | Some L \<Rightarrow> null_div (L * pi) eSun)"
  by (simp add: calc_radiance calc_reflectance null_div_def split: option.splits)

theorem reflectance_reduces_to_radiance_witness:
  "\<exists>rad refl. calc ''wv2_red'' [0.01, 0, 1, 1559.4555, 50] True = Inr rad
     \<and> calc ''wv2_red'' [0.01, 0, 1, 1559.4555, 50] False = Inr refl
     \<and> cell_value sample_env rad = Some 0.2
     \<and> cell_value sample_env refl = Some (0.2 * pi / 1559.4555)"
proof -
  have "cell_value sample_env (Div (Mul (Num 0.01) (Rast ''wv2_red'')) (Num 50)) = Some 0.2"
    by (simp add: sample_env_def null_div_def)
  then show ?thesis
    using reflectance_reduces_to_radiance [of "''wv2_red''" "0.01" "1559.4555" 50 sample_env]
    by (simp add: calc_radiance null_div_def)
qed


subsection \<open>Extraction and the main routine\<close>

lemma try_body_missing:
  assumes "p \<in> set (required_fields band)" "field_missing rootel p"
  shows "\<exists>e. try_body pyfloat rootel band = Inl e"
  using assms
  by (auto simp: required_fields_def field_missing_def try_body_def bind_exn_def
      to_float_def text_at_def split: sum.splits option.splits)

lemma extract_missing:
  assumes "fs path = Some (Document rootel)"
    and "p \<in> set (required_fields band)" "field_missing rootel p"
  shows "ExtractVariablesFromMetadata pyfloat fs path band
           = ([Message extract_error], Inl (SystemExit 1))"
  using try_body_missing [OF assms(2,3), of pyfloat] assms(1)
  by (auto simp: ExtractVariablesFromMetadata_def)

lemma main_after_failed_extraction:
  assumes "ExtractVariablesFromMetadata pyfloat fs (opt_metadata_xml args) code = (ev, Inl e)"
    and "band_code G (opt_band args) = Inr code \<or> (\<exists>x. band_code G (opt_band args) = Inl x)"
  shows "\<exists>tr x. main pyfloat G fs args = (tr, Inl x) \<and> (tr = [] \<or> tr = ev)"
  using assms
  by (auto simp: main_def Let_def split: sum.splits prod.splits)

lemma script_band_code: "band_code (script_globals args) band = Inl (NameError ''bandLookup'')"
  by (simp add: band_code_def script_globals_def)

lemma output_name_known_band:
  "band \<in> set (map fst band_lookup) \<Longrightarrow> \<exists>name. output_name pfx band flag = Inr name"
  by (auto simp: output_name_def getitem_def bind_exn_def band_lookup_def band_num_def)

text \<open>
  Claim C6 says that the flag for numeric band codes selects the sequential number and
  that the mnemonic code is used otherwise. The script does the reverse: with the flag
  \<open>n\<close> set, prefix \<open>toa\<close> and band \<open>NIR1\<close> it names the output \<open>toa.BAND_N\<close>, and
  without the flag \<open>toa.7\<close>, although the flag is described as "Use band numbers
  instead of letters".
\<close>

theorem output_name_flag_reversed:
  "output_name ''toa'' ''NIR1'' True = Inr ''toa.BAND_N''
   \<and> output_name ''toa'' ''NIR1'' False = Inr ''toa.7''"
  by (simp add: output_name_def getitem_def bind_exn_def band_lookup_def band_num_def)

text \<open>
  Claim C7 says that the band lookup of line 202 is well defined. In the script it is
  not: for each of the nine bands, whatever the other inputs, \<open>main\<close> ends with
  \<open>NameError\<close> for \<open>bandLookup\<close> before anything is read or written.
\<close>

theorem main_raises_name_error:
  "opt_band args \<in> set (map fst band_lookup) \<Longrightarrow>
   main pyfloat (script_globals args) fs args = ([], Inl (NameError ''bandLookup''))"
  using output_name_known_band [of "opt_band args" "opt_output_prefix args" "flag_n args"]
  by (auto simp: main_def script_band_code)

theorem main_raises_name_error_witness:
  "opt_band sample_args \<in> set (map fst band_lookup)
   \<and> main decimal (script_globals sample_args) sample_fs sample_args
       = ([], Inl (NameError ''bandLookup''))"
proof -
  have b: "opt_band sample_args \<in> set (map fst band_lookup)"
    by (simp add: sample_args_def band_lookup_def)
  show ?thesis
    using main_raises_name_error [OF b, of decimal sample_fs] b by simp
qed

text \<open>
  Claim C8. If the node of a required field is absent or has no text, extraction ends
  in the handled failure of the script (its diagnostic message, then \<open>sys.exit(1)\<close>,
  which is what the specification calls \<open>MetadataFieldMissing\<close>), no record is
  returned, and \<open>main\<close> fails without a map-algebra request, whether line 202 raises or
  passes the band code on to extraction.
\<close>

theorem missing_field_aborts:
  assumes "fs (opt_metadata_xml args) = Some (Document rootel)"
    and "p \<in> set (required_fields code)"
    and "field_missing rootel p"
    and "band_code G (opt_band args) = Inr code \<or> (\<exists>x. band_code G (opt_band args) = Inl x)"
  shows "ExtractVariablesFromMetadata pyfloat fs (opt_metadata_xml args) code
           = ([Message extract_error], Inl (SystemExit 1))
       \<and> handled_failure (ExtractVariablesFromMetadata pyfloat fs (opt_metadata_xml args) code)
       \<and> (\<exists>x. snd (main pyfloat G fs args) = Inl x)
       \<and> no_raster (fst (main pyfloat G fs args))"
proof -
  have e: "ExtractVariablesFromMetadata pyfloat fs (opt_metadata_xml args) code
           = ([Message extract_error], Inl (SystemExit 1))"
    using assms(1-3) by (rule extract_missing)
  obtain tr x where m: "main pyfloat G fs args = (tr, Inl x)"
    and t: "tr = [] \<or> tr = [Message extract_error]"
    using main_after_failed_extraction [OF e assms(4)] by blast
  have "no_raster tr"
    using t by (auto simp: no_raster_def)
  then show ?thesis
    using e m by (simp add: handled_failure_def)
qed

lemma no_abscal_missing:
  "field_missing doc_without_abscal [''IMD'', ''BAND_R'', ''ABSCALFACTOR'']"
  by (simp add: field_missing_def find_el_def doc_without_abscal_def red_band_def)

lemma repaired_band_code: "band_code (repaired_globals args) ''Red'' = Inr ''BAND_R''"
  by (simp add: band_code_def repaired_globals_def subscript_def getitem_def band_lookup_def)

theorem missing_field_aborts_witness:
  "sample_fs ''no_abscal.xml'' = Some (Document doc_without_abscal)
   \<and> [''IMD'', ''BAND_R'', ''ABSCALFACTOR''] \<in> set (required_fields ''BAND_R'')
   \<and> field_missing doc_without_abscal [''IMD'', ''BAND_R'', ''ABSCALFACTOR'']
   \<and> band_code (repaired_globals sample_args) ''Red'' = Inr ''BAND_R''
   \<and> ExtractVariablesFromMetadata decimal sample_fs ''no_abscal.xml'' ''BAND_R''
       = ([Message extract_error], Inl (SystemExit 1))
   \<and> no_raster (fst (main decimal (repaired_globals sample_args) sample_fs
                       (sample_args\<lparr>opt_metadata_xml := ''no_abscal.xml''\<rparr>)))
   \<and> snd (main decimal (repaired_globals sample_args) sample_fs
            (sample_args\<lparr>opt_metadata_xml := ''no_abscal.xml''\<rparr>)) = Inl (SystemExit 1)"
proof -
  let ?args = "sample_args\<lparr>opt_metadata_xml := ''no_abscal.xml''\<rparr>"
  have f: "sample_fs (opt_metadata_xml ?args) = Some (Document doc_without_abscal)"
    by (simp add: sample_fs_def)
  have p: "[''IMD'', ''BAND_R'', ''ABSCALFACTOR''] \<in> set (required_fields ''BAND_R'')"
    by (simp add: required_fields_def)
  have c: "band_code (repaired_globals sample_args) (opt_band ?args) = Inr ''BAND_R''
           \<or> (\<exists>x. band_code (repaired_globals sample_args) (opt_band ?args) = Inl x)"
    by (simp add: sample_args_def repaired_band_code)
  have o: "output_name ''toa'' ''Red'' False = Inr ''toa.5''"
    by (simp add: output_name_def getitem_def bind_exn_def band_num_def)
  have "ExtractVariablesFromMetadata decimal sample_fs ''no_abscal.xml'' ''BAND_R''
        = ([Message extract_error], Inl (SystemExit 1))"
    using missing_field_aborts [where fs = sample_fs and args = ?args and pyfloat = decimal,
        OF f p no_abscal_missing c] by simp
  then have m: "main decimal (repaired_globals sample_args) sample_fs ?args
      = ([Message extract_error], Inl (SystemExit 1))"
    by (simp add: main_def sample_args_def repaired_band_code o)
  show ?thesis
    using missing_field_aborts [where fs = sample_fs and args = ?args and pyfloat = decimal,
        OF f p no_abscal_missing c] f p no_abscal_missing repaired_band_code m
    by simp
qed

text \<open>
  Claim C9, as stated: a document that is not well-formed makes extraction end in a
  handled failure. It does not: the parser's error is raised before the \<open>try\<close> block
  is entered, so no handler of the script sees it.
\<close>

theorem parse_error_not_handled:
  "\<not> handled_failure (ExtractVariablesFromMetadata decimal sample_fs ''broken.xml'' ''BAND_R'')"
  by (simp add: handled_failure_def ExtractVariablesFromMetadata_def sample_fs_def)

text \<open>
  Claim C9, amended: for every document that cannot be parsed, extraction raises the
  parser's error to its caller and returns no record; the script writes no message and
  does not call \<open>sys.exit\<close>, and \<open>main\<close>, which catches nothing, ends with an
  exception that is not an exit, having issued no request to the GIS.
\<close>

theorem parse_error_propagates:
  assumes "fs (opt_metadata_xml args) = Some Malformed"
  shows "ExtractVariablesFromMetadata pyfloat fs (opt_metadata_xml args) band
           = ([], Inl ParseError)
       \<and> fst (main pyfloat G fs args) = []
       \<and> (\<exists>x. snd (main pyfloat G fs args) = Inl x)
       \<and> \<not> handled_failure (main pyfloat G fs args)"
proof -
  have e: "ExtractVariablesFromMetadata pyfloat fs (opt_metadata_xml args) c
           = ([], Inl ParseError)" for c
    using assms by (simp add: ExtractVariablesFromMetadata_def)
  have s: "is_exit x \<Longrightarrow> subscript obj k \<noteq> Inl x" for x obj k
    by (cases x) (auto simp: subscript_def getitem_def split: pyobj.splits option.splits)
  have b: "is_exit x \<Longrightarrow> band_code G k \<noteq> Inl x" for x k
    using s by (auto simp: band_code_def split: option.splits)
  have o: "is_exit x \<Longrightarrow> output_name pfx k fl \<noteq> Inl x" for x pfx k fl
    by (cases x) (auto simp: output_name_def getitem_def bind_exn_def split: option.splits)
  have "fst (main pyfloat G fs args) = []
       \<and> (\<exists>x. snd (main pyfloat G fs args) = Inl x \<and> \<not> is_exit x)"
    using b o by (auto simp: main_def Let_def e split: sum.splits)
  then show ?thesis
    using e by (auto simp: handled_failure_def)
qed

theorem parse_error_propagates_witness:
  "sample_fs ''broken.xml'' = Some Malformed
   \<and> ExtractVariablesFromMetadata decimal sample_fs ''broken.xml'' ''BAND_R''
       = ([], Inl ParseError)
   \<and> main decimal (repaired_globals sample_args) sample_fs
        (sample_args\<lparr>opt_metadata_xml := ''broken.xml''\<rparr>) = ([], Inl ParseError)"
proof -
  let ?args = "sample_args\<lparr>opt_metadata_xml := ''broken.xml''\<rparr>"
  have f: "sample_fs (opt_metadata_xml ?args) = Some Malformed"
    by (simp add: sample_fs_def)
  have o: "output_name ''toa'' ''Red'' False = Inr ''toa.5''"
    by (simp add: output_name_def getitem_def bind_exn_def band_num_def)
  have e: "ExtractVariablesFromMetadata decimal sample_fs ''broken.xml'' ''BAND_R''
       = ([], Inl ParseError)"
    using parse_error_propagates [where fs = sample_fs and args = ?args and pyfloat = decimal
        and band = "''BAND_R''", OF f] by simp
  then have "main decimal (repaired_globals sample_args) sample_fs ?args = ([], Inl ParseError)"
    by (simp add: main_def sample_args_def repaired_band_code o)
  then show ?thesis
    using e f by simp
qed


end
